theory Spec2Isabelle
  imports Main
begin

section \<open>Values of the JavaScript runtime\<close>

text \<open>
  Everything thrown inside the handler is a value of \<open>error\<close>: \<open>EINVAL\<close> and
  \<open>EACCES\<close> are the two strings the repository throws itself, \<open>TypeError\<close> is a
  property read or a call on \<open>undefined\<close>, \<open>SyntaxError\<close> is what \<open>new RegExp\<close>
  throws on an invalid pattern, and \<open>Rejected\<close> is a throw or a rejected promise of
  a collaborator (configuration lookup, token verification, a bound helper).
\<close>

datatype error = EINVAL | EACCES | TypeError | SyntaxError | Rejected string

text \<open>
  The values a verify option may hold: the resource tags give strings, an absent tag
  gives \<open>undefined\<close>, and the handler itself stores numbers and arrays of strings.
\<close>

datatype jsval = JUndefined | JString string | JNumber int | JNaN | JArray "string list"

fun truthy :: "jsval \<Rightarrow> bool" where
  "truthy JUndefined = False"
| "truthy (JString s) = (s \<noteq> [])"
| "truthy (JNumber n) = (n \<noteq> 0)"
| "truthy JNaN = False"
| "truthy (JArray xs) = True"

fun typeof_string :: "jsval \<Rightarrow> bool" where
  "typeof_string (JString s) = True"
| "typeof_string v = False"

text \<open>A string that may be \<open>undefined\<close>, as a template literal or a property key prints it.\<close>

fun template_string :: "string option \<Rightarrow> string" where
  "template_string None = ''undefined''"
| "template_string (Some s) = s"

text \<open>
  Strings are lists of code units below 256. \<open>String.prototype.trim\<close> removes white
  space and line terminators at both ends; in this range these are TAB, LF, VT, FF, CR,
  SPACE and NBSP.
\<close>

definition white_space :: "char \<Rightarrow> bool" where
  "white_space c =
     (c \<in> set [CHR 0x09, CHR 0x0A, CHR 0x0B, CHR 0x0C, CHR 0x0D, CHR '' '', CHR 0xA0])"

definition js_trim :: "string \<Rightarrow> string" where
  "js_trim s = rev (dropWhile white_space (rev (dropWhile white_space s)))"

text \<open>\<open>s.split(sep)\<close> for a separator of one character: never the empty array.\<close>

fun js_split :: "char \<Rightarrow> string \<Rightarrow> string list" where
  "js_split sep [] = [] # []"
| "js_split sep (c # cs) =
     (if c = sep then [] # js_split sep cs
      else (case js_split sep cs of [] \<Rightarrow> [c] # [] | w # ws \<Rightarrow> (c # w) # ws))"

fun js_join :: "string \<Rightarrow> string list \<Rightarrow> string" where
  "js_join sep [] = []"
| "js_join sep [x] = x"
| "js_join sep (x # y # ys) = x @ sep @ js_join sep (y # ys)"

section \<open>Requests, responses, events\<close>

record header =
  key :: string
  hvalue :: string

type_synonym headers = "string \<rightharpoonup> header list"

text \<open>
  The request object of the event; \<open>request_method\<close> is its \<open>method\<close> property.
\<close>

record request =
  request_method :: string
  uri :: string
  headers :: headers
  body :: "(string \<rightharpoonup> string) option"

text \<open>
  A response object: its \<open>headers\<close> property, when there is one, lists each header name
  with its entries.
\<close>

record response =
  status :: string
  statusDescription :: string
  response_headers :: "(string \<times> header list) list option"

text \<open>
  Objects are held by reference: the event names its request by address, and the
  handler hands that address back on the allow path.
\<close>

type_synonym ref = nat

record lambda_record =
  cf_request :: ref

record event =
  Records :: "lambda_record list"

record lambda_context =
  invokedFunctionArn :: string

section \<open>Configuration and collaborators\<close>

record verify_options =
  clockTolerance :: jsval
  algorithms :: jsval
  maxAge :: jsval

type_synonym claims = "(string \<times> string) list"

type_synonym verifier =
  "string option \<Rightarrow> string option \<Rightarrow> verify_options option \<Rightarrow> error + claims"

text \<open>
  The object \<open>getConfigFromTags\<close> resolves. \<open>config_clockTolerance\<close> is the top-level
  property \<open>config.clockTolerance\<close>, which line 126 of the handler reads.
\<close>

record config =
  jwtVerifyOptions :: "verify_options option"
  keyPairName :: "string option"
  publicKeyStore :: "string option"
  setCookieUri :: "string option"
  tokenCookieConfig :: "string option"
  tokenCookieName :: "string option"
  config_clockTolerance :: jsval
  jwtVerify :: "verifier option"

text \<open>The bound \<open>this\<close> of the handler: either helper may be missing.\<close>

record helpers =
  getSetCookieToken :: "(request \<Rightarrow> error + string option) option"
  getAuthorizedPatterns :: "(config \<Rightarrow> claims \<Rightarrow> error + string list) option"

text \<open>
  What the handler imports from other packages and from the runtime, taken as
  parameters: the configuration lookup (by function ARN), the library's \<open>jwtVerify\<close>
  bound to a key cache that fetches from the configuration's key store, the cookie
  parser, \<open>(new RegExp(re)).test(uri)\<close> and \<open>parseInt\<close>.
\<close>

record env =
  getConfigFromTags :: "string \<Rightarrow> error + config"
  jwtVerify_bound :: "config \<Rightarrow> verifier"
  parseCookies :: "headers \<Rightarrow> (string \<rightharpoonup> string)"
  regExp_test :: "string \<Rightarrow> string \<Rightarrow> error + bool"
  parseInt :: "jsval \<Rightarrow> jsval"

section \<open>State: the object store and the calls made\<close>

datatype call =
    CallGetConfigFromTags string
  | CallGetSetCookieToken ref
  | CallJwtVerify "string option" "string option" "verify_options option"
  | CallGetAuthorizedPatterns claims
  | CallGetAuthorizedRequest
  | CallSetCookieResponse "string option"

record state =
  objects :: "ref \<rightharpoonup> request"
  calls :: "call list"

definition record_call :: "call \<Rightarrow> state \<Rightarrow> state" where
  "record_call c s = s\<lparr>calls := calls s @ [c]\<rparr>"

section \<open>getAuthBearerToken.js\<close>

definition getAuthBearerToken :: "request \<Rightarrow> error + string option" where
  "getAuthBearerToken request =
     (case headers request ''authorization'' of
        None \<Rightarrow> Inl TypeError
      | Some [] \<Rightarrow> Inl TypeError
      | Some (h # _) \<Rightarrow>
          (case js_split CHR '' '' (hvalue h) of
             [] \<Rightarrow> Inl EINVAL
           | scheme # rest \<Rightarrow>
               if scheme = ''Bearer''
               then Inr (case rest of [] \<Rightarrow> None | token # _ \<Rightarrow> Some token)
               else Inl EINVAL))"

section \<open>setCookieResponse.js\<close>

record set_cookie_args =
  cookieName :: "string option"
  cookieConfig :: "string option"
  token :: "string option"

definition setCookieResponse :: "set_cookie_args \<Rightarrow> response" where
  "setCookieResponse a =
     (let cookieConfig' =
            (case cookieConfig a of
               None \<Rightarrow> []
             | Some c \<Rightarrow> if c = [] then [] else ''; '' @ c)
      in \<lparr>status = ''204'',
          statusDescription = ''OK'',
          response_headers = Some [(''set-cookie'',
            [\<lparr>key = ''Set-Cookie'',
              hvalue = template_string (cookieName a) @ ''='' @
                       template_string (token a) @ cookieConfig'\<rparr>])]\<rparr>)"

section \<open>getAuthorizedRequest.js\<close>

text \<open>
  \<open>patterns.some(re => (new RegExp(re)).test(uri))\<close>: left to right, stopping at the
  first match, and raising what the first failing compilation raises.
\<close>

fun some_test :: "(string \<Rightarrow> error + bool) \<Rightarrow> string list \<Rightarrow> error + bool" where
  "some_test t [] = Inr False"
| "some_test t (re # res) =
     (case t re of
        Inl e \<Rightarrow> Inl e
      | Inr matched \<Rightarrow> if matched then Inr True else some_test t res)"

record authorizer =
  ar_tokenCookieName :: "string option"
  ar_getAuthorizedPatterns :: "string option \<Rightarrow> state \<Rightarrow> (error + string list) \<times> state"

definition getAuthorizedRequest ::
  "env \<Rightarrow> authorizer \<Rightarrow> event \<Rightarrow> state \<Rightarrow> (error + ref) \<times> state" where
  "getAuthorizedRequest env this event s0 =
     (let s = record_call CallGetAuthorizedRequest s0 in
      case Records event of
        [] \<Rightarrow> (Inl TypeError, s)
      | rec # _ \<Rightarrow>
          (case objects s (cf_request rec) of
             None \<Rightarrow> (Inl TypeError, s)
           | Some request \<Rightarrow>
               (let token = parseCookies env (headers request)
                              (template_string (ar_tokenCookieName this))
                in case ar_getAuthorizedPatterns this token s of
                     (Inl e, s') \<Rightarrow> (Inl e, s')
                   | (Inr patterns, s') \<Rightarrow>
                       (case objects s' (cf_request rec) of
                          None \<Rightarrow> (Inl TypeError, s')
                        | Some request' \<Rightarrow>
                            (case some_test (\<lambda>re. regExp_test env re (uri request')) patterns of
                               Inl e \<Rightarrow> (Inl e, s')
                             | Inr matched \<Rightarrow>
                                 if matched then (Inr (cf_request rec), s')
                                 else (Inl EACCES, s'))))))"

section \<open>frontAuth.js\<close>

text \<open>Lines 122 to 133: the verify options are rewritten in place.\<close>

definition swizzle :: "env \<Rightarrow> config \<Rightarrow> config" where
  "swizzle env config =
     (case jwtVerifyOptions config of
        None \<Rightarrow> config
      | Some opts \<Rightarrow>
          (let opts1 =
                 (if truthy (clockTolerance opts) \<and> typeof_string (config_clockTolerance config)
                  then opts\<lparr>clockTolerance := parseInt env (clockTolerance opts)\<rparr>
                  else opts);
               opts2 =
                 (case algorithms opts1 of
                    JString a \<Rightarrow>
                      if a \<noteq> [] then opts1\<lparr>algorithms := JArray (js_split CHR '' '' (js_trim a))\<rparr>
                      else opts1
                  | _ \<Rightarrow> opts1)
           in config\<lparr>jwtVerifyOptions := Some opts2\<rparr>))"

text \<open>Lines 135 to 146: a configuration without a verifier gets the library's.\<close>

definition add_jwtVerify :: "env \<Rightarrow> config \<Rightarrow> config" where
  "add_jwtVerify env config =
     (case jwtVerify config of
        Some v \<Rightarrow> config
      | None \<Rightarrow> config\<lparr>jwtVerify := Some (jwtVerify_bound env config)\<rparr>)"

text \<open>\<open>config.jwtVerify(token, config.keyPairName, config.jwtVerifyOptions)\<close>.\<close>

definition verify_with :: "config \<Rightarrow> string option \<Rightarrow> error + claims" where
  "verify_with config tok =
     (case jwtVerify config of
        None \<Rightarrow> Inl TypeError
      | Some v \<Rightarrow> v tok (keyPairName config) (jwtVerifyOptions config))"

text \<open>The configuration as the request is processed with it, after lines 115 to 146.\<close>

definition resolved :: "env \<Rightarrow> config \<Rightarrow> config" where
  "resolved env config0 = add_jwtVerify env (swizzle env config0)"

definition call_jwtVerify :: "config \<Rightarrow> string option \<Rightarrow> state \<Rightarrow> (error + claims) \<times> state" where
  "call_jwtVerify config tok s =
     (verify_with config tok,
      record_call (CallJwtVerify tok (keyPairName config) (jwtVerifyOptions config)) s)"

text \<open>Lines 164 to 166: the closure handed to \<open>getAuthorizedRequest\<close>.\<close>

definition verified_patterns ::
  "config \<Rightarrow> helpers \<Rightarrow> string option \<Rightarrow> state \<Rightarrow> (error + string list) \<times> state" where
  "verified_patterns config this tok s =
     (case call_jwtVerify config tok s of
        (Inl e, s') \<Rightarrow> (Inl e, s')
      | (Inr cl, s') \<Rightarrow>
          (case getAuthorizedPatterns this of
             None \<Rightarrow> (Inl TypeError, s')
           | Some derive \<Rightarrow> (derive config cl, record_call (CallGetAuthorizedPatterns cl) s')))"

datatype outcome = PassThrough ref | Respond response

text \<open>
  Lines 152 and 153: \<open>(config.tokenCookieConfig || '').trim().split(' ').join('; ')\<close>.
\<close>

definition cookieConfig_of :: "string option \<Rightarrow> string" where
  "cookieConfig_of c =
     js_join ''; '' (js_split CHR '' '' (js_trim (case c of None \<Rightarrow> [] | Some x \<Rightarrow> x)))"

text \<open>Lines 151 to 159.\<close>

definition issue_cookie ::
  "config \<Rightarrow> (request \<Rightarrow> error + string option) \<Rightarrow> ref \<Rightarrow> request \<Rightarrow> state
     \<Rightarrow> (error + outcome) \<times> state" where
  "issue_cookie config extract r request s =
     (let s1 = record_call (CallGetSetCookieToken r) s
      in case extract request of
           Inl e \<Rightarrow> (Inl e, s1)
         | Inr tok \<Rightarrow>
             (let cc = cookieConfig_of (tokenCookieConfig config)
              in case call_jwtVerify config tok s1 of
                   (Inl e, s2) \<Rightarrow> (Inl e, s2)
                 | (Inr cl, s2) \<Rightarrow>
                     (Inr (Respond (setCookieResponse
                        \<lparr>cookieName = tokenCookieName config, cookieConfig = Some cc, token = tok\<rparr>)),
                      record_call (CallSetCookieResponse tok) s2)))"

text \<open>Lines 162 to 167.\<close>

definition authorize ::
  "env \<Rightarrow> config \<Rightarrow> helpers \<Rightarrow> event \<Rightarrow> state \<Rightarrow> (error + outcome) \<times> state" where
  "authorize env config this event s =
     (case getAuthorizedRequest env
             \<lparr>ar_tokenCookieName = tokenCookieName config,
              ar_getAuthorizedPatterns = verified_patterns config this\<rparr> event s of
        (Inl e, s') \<Rightarrow> (Inl e, s')
      | (Inr r, s') \<Rightarrow> (Inr (PassThrough r), s'))"

text \<open>The body of the \<open>try\<close>, lines 114 to 168.\<close>

definition frontAuth_try ::
  "env \<Rightarrow> helpers \<Rightarrow> event \<Rightarrow> lambda_context \<Rightarrow> state \<Rightarrow> (error + outcome) \<times> state" where
  "frontAuth_try env this event context s0 =
     (let s = record_call (CallGetConfigFromTags (invokedFunctionArn context)) s0
      in case getConfigFromTags env (invokedFunctionArn context) of
           Inl e \<Rightarrow> (Inl e, s)
         | Inr config0 \<Rightarrow>
             (let config = resolved env config0
              in case Records event of
                   [] \<Rightarrow> (Inl TypeError, s)
                 | rec # _ \<Rightarrow>
                     (case (setCookieUri config, getSetCookieToken this) of
                        (Some u, Some extract) \<Rightarrow>
                          if u = [] then authorize env config this event s
                          else (case objects s (cf_request rec) of
                                  None \<Rightarrow> (Inl TypeError, s)
                                | Some request \<Rightarrow>
                                    if uri request = u
                                    then issue_cookie config extract (cf_request rec) request s
                                    else authorize env config this event s)
                      | _ \<Rightarrow> authorize env config this event s)))"

definition forbidden :: response where
  "forbidden = \<lparr>status = ''403'', statusDescription = ''Forbidden'', response_headers = None\<rparr>"

definition frontAuth ::
  "env \<Rightarrow> helpers \<Rightarrow> event \<Rightarrow> lambda_context \<Rightarrow> state \<Rightarrow> outcome \<times> state" where
  "frontAuth env this event context s =
     (case frontAuth_try env this event context s of
        (Inl err, s') \<Rightarrow> (Respond forbidden, s')
      | (Inr out, s') \<Rightarrow> (out, s'))"

section \<open>The deployment of the repository's tests\<close>

text \<open>
  The configuration, helpers and example request of the test file, with stand-ins for
  the collaborators the tests mock or import. They are used for concrete runs only.
\<close>

definition test_config :: config where
  "test_config =
     \<lparr>jwtVerifyOptions = Some \<lparr>clockTolerance = JUndefined, algorithms = JString ''ES256'',
                                maxAge = JUndefined\<rparr>,
      keyPairName = Some ''testkey'',
      publicKeyStore = Some ''test:///store/'',
      setCookieUri = Some ''/setcookie'',
      tokenCookieConfig = None,
      tokenCookieName = Some ''testtoken'',
      config_clockTolerance = JUndefined,
      jwtVerify = None\<rparr>"

text \<open>
  Stands for signature verification: one token counts as signed by the test key and
  carries the payload of the tests; everything else, the absent token too, is rejected.
\<close>

definition test_verifier :: "config \<Rightarrow> verifier" where
  "test_verifier config tok kp opts =
     (if tok = Some ''signed.testuser'' \<and> kp = Some ''testkey''
      then Inr [(''userid'', ''testuser'')]
      else Inl (Rejected ''TokenInvalid''))"

text \<open>Cookie pairs \<open>name=value\<close>, separated by semicolons, of the \<open>cookie\<close> header entries.\<close>

definition test_parseCookies :: "headers \<Rightarrow> (string \<rightharpoonup> string)" where
  "test_parseCookies h =
     (case h ''cookie'' of
        None \<Rightarrow> Map.empty
      | Some entries \<Rightarrow>
          map_of (map (\<lambda>p. (takeWhile (\<lambda>c. c \<noteq> CHR ''='') p,
                             drop 1 (dropWhile (\<lambda>c. c \<noteq> CHR ''='') p)))
                      (concat (map (\<lambda>e. map js_trim (js_split CHR '';'' (hvalue e))) entries))))"

text \<open>
  The runtime's regular expressions on two families of patterns: \<open>^lit.*\<close> with a
  literal \<open>lit\<close> free of special characters tests whether the input starts with
  \<open>lit\<close>, and a pattern that opens a group it never closes (no closing parenthesis,
  no escape, no character class) is a syntax error. Other patterns are not covered.
\<close>

definition regExp_special :: "char \<Rightarrow> bool" where
  "regExp_special c = (c \<in> set (CHR 0x5C # ''^$.|?*+()[]{}''))"

definition test_regExp_test :: "string \<Rightarrow> string \<Rightarrow> error + bool" where
  "test_regExp_test re u =
     (let lit = take (length re - 3) (drop 1 re)
      in if re = ''^'' @ lit @ ''.*'' \<and> list_all (\<lambda>c. \<not> regExp_special c) lit
         then Inr (take (length lit) u = lit)
         else if CHR ''('' \<in> set re \<and>
                 list_all (\<lambda>c. c \<notin> set (CHR 0x5C # '')['')) re
         then Inl SyntaxError
         else Inl (Rejected ''pattern not covered''))"

text \<open>The runtime's \<open>parseInt\<close> on strings of decimal digits and on integers.\<close>

definition test_parseInt :: "jsval \<Rightarrow> jsval" where
  "test_parseInt v =
     (case v of
        JString s \<Rightarrow>
          if s \<noteq> [] \<and> list_all (\<lambda>c. c \<in> set ''0123456789'') s
          then JNumber (foldl (\<lambda>n c. 10 * n + (int (of_char c) - 48)) 0 s)
          else JNaN
      | JNumber n \<Rightarrow> JNumber n
      | _ \<Rightarrow> JNaN)"

definition test_env :: env where
  "test_env =
     \<lparr>getConfigFromTags = (\<lambda>arn. Inr test_config),
      jwtVerify_bound = test_verifier,
      parseCookies = test_parseCookies,
      regExp_test = test_regExp_test,
      parseInt = test_parseInt\<rparr>"

text \<open>The two helpers the tests bind.\<close>

definition test_getSetCookieToken :: "request \<Rightarrow> error + string option" where
  "test_getSetCookieToken request =
     (case body request of
        None \<Rightarrow> Inl TypeError
      | Some b \<Rightarrow> Inr (b ''token''))"

definition test_getAuthorizedPatterns :: "config \<Rightarrow> claims \<Rightarrow> error + string list" where
  "test_getAuthorizedPatterns config cl =
     Inr [''^/common/.*'', ''^/user/'' @ template_string (map_of cl ''userid'') @ ''/.*'']"

definition test_helpers :: helpers where
  "test_helpers =
     \<lparr>getSetCookieToken = Some test_getSetCookieToken,
      getAuthorizedPatterns = Some test_getAuthorizedPatterns\<rparr>"

definition exampleEventRequest :: request where
  "exampleEventRequest =
     \<lparr>request_method = ''GET'',
      uri = ''/'',
      headers = [''host'' \<mapsto> [\<lparr>key = ''Host'', hvalue = ''d111111abcdef8.cloudfront.net''\<rparr>],
                 ''user-agent'' \<mapsto> [\<lparr>key = ''User-Agent'', hvalue = ''curl/7.66.0''\<rparr>],
                 ''accept'' \<mapsto> [\<lparr>key = ''accept'', hvalue = ''*/*''\<rparr>]],
      body = None\<rparr>"

definition test_event :: event where
  "test_event = \<lparr>Records = [\<lparr>cf_request = 0\<rparr>]\<rparr>"

definition test_context :: lambda_context where
  "test_context = \<lparr>invokedFunctionArn = ''arn:test''\<rparr>"

text \<open>The store holding one request, with nothing called yet.\<close>

definition store_of :: "request \<Rightarrow> state" where
  "store_of request = \<lparr>objects = [0 \<mapsto> request], calls = []\<rparr>"

text \<open>
  The requests of the tests: the token posted to the set-cookie path, and a request
  that carries the token in its cookie.
\<close>

definition setCookie_request :: request where
  "setCookie_request =
     exampleEventRequest\<lparr>uri := ''/setcookie'', body := Some [''token'' \<mapsto> ''signed.testuser'']\<rparr>"

definition cookie_request :: "string \<Rightarrow> request" where
  "cookie_request u =
     exampleEventRequest\<lparr>uri := u,
       headers := (headers exampleEventRequest)
         (''cookie'' \<mapsto> [\<lparr>key = ''Cookie'', hvalue = ''testtoken=signed.testuser''\<rparr>])\<rparr>"

text \<open>An authorizer whose pattern set does not depend on the token.\<close>

definition fixed_authorizer :: "string list \<Rightarrow> authorizer" where
  "fixed_authorizer P =
     \<lparr>ar_tokenCookieName = Some ''testtoken'',
      ar_getAuthorizedPatterns = (\<lambda>tok s. (Inr P, s))\<rparr>"

text \<open>The test configuration with all three verify options set by tag.\<close>

definition tolerance_config :: config where
  "tolerance_config =
     test_config\<lparr>jwtVerifyOptions :=
       Some \<lparr>clockTolerance = JString ''30'', algorithms = JString ''ES256 ES384'',
             maxAge = JString ''10s''\<rparr>\<rparr>"






text \<open>
  \<open>called_before a b cs\<close>: in the list of calls, \<open>b\<close> comes after the first \<open>a\<close>.
\<close>

definition called_before :: "call \<Rightarrow> call \<Rightarrow> call list \<Rightarrow> bool" where
  "called_before a b cs = (b \<in> set (drop 1 (dropWhile (\<lambda>c. c \<noteq> a) cs)))"

section \<open>Bearer extraction\<close>

lemma js_split_unfold:
  "js_split sep s =
     takeWhile (\<lambda>c. c \<noteq> sep) s #
       (case dropWhile (\<lambda>c. c \<noteq> sep) s of [] \<Rightarrow> [] | d # r \<Rightarrow> js_split sep r)"
  by (induction s) (auto split: list.splits)

lemma js_split_no_sep: "sep \<notin> set s \<Longrightarrow> js_split sep s = [s]"
  by (induction s) auto

lemma js_split_append:
  "sep \<notin> set a \<Longrightarrow> js_split sep (a @ sep # b) = a # js_split sep b"
  by (induction a) auto

text \<open>
  C5: when the request carries an \<open>Authorization\<close> header, extraction looks at the
  value of its first entry, split on the space character. The scheme is the part before
  the first space. If it is \<open>Bearer\<close> the result is the part between the first and the
  second space (\<open>undefined\<close> when there is no space at all), so for a value
  \<open>Bearer tok\<close> with a token free of spaces the result is \<open>tok\<close>; for any other scheme
  extraction throws \<open>EINVAL\<close>.
\<close>

theorem getAuthBearerToken_scheme:
  assumes "headers request ''authorization'' = Some (h # hs)"
  shows "getAuthBearerToken request =
           (if takeWhile (\<lambda>c. c \<noteq> CHR '' '') (hvalue h) = ''Bearer''
            then Inr (case dropWhile (\<lambda>c. c \<noteq> CHR '' '') (hvalue h) of
                        [] \<Rightarrow> None
                      | d # r \<Rightarrow> Some (takeWhile (\<lambda>c. c \<noteq> CHR '' '') r))
            else Inl EINVAL)
         \<and> (\<forall>tok. hvalue h = ''Bearer '' @ tok \<and> CHR '' '' \<notin> set tok
                \<longrightarrow> getAuthBearerToken request = Inr (Some tok))"
proof -
  let ?v = "hvalue h"
  have split: "js_split CHR '' '' ?v =
      takeWhile (\<lambda>c. c \<noteq> CHR '' '') ?v #
        (case dropWhile (\<lambda>c. c \<noteq> CHR '' '') ?v of [] \<Rightarrow> [] | d # r \<Rightarrow> js_split CHR '' '' r)"
    by (rule js_split_unfold)
  have general: "getAuthBearerToken request =
           (if takeWhile (\<lambda>c. c \<noteq> CHR '' '') ?v = ''Bearer''
            then Inr (case dropWhile (\<lambda>c. c \<noteq> CHR '' '') ?v of
                        [] \<Rightarrow> None
                      | d # r \<Rightarrow> Some (takeWhile (\<lambda>c. c \<noteq> CHR '' '') r))
            else Inl EINVAL)"
  proof (cases "dropWhile (\<lambda>c. c \<noteq> CHR '' '') ?v")
    case Nil
    with split have "js_split CHR '' '' ?v = [takeWhile (\<lambda>c. c \<noteq> CHR '' '') ?v]"
      by simp
    with assms show ?thesis
      unfolding getAuthBearerToken_def Nil by simp
  next
    case (Cons d r)
    have "js_split CHR '' '' r = takeWhile (\<lambda>c. c \<noteq> CHR '' '') r #
        (case dropWhile (\<lambda>c. c \<noteq> CHR '' '') r of [] \<Rightarrow> [] | d # r' \<Rightarrow> js_split CHR '' '' r')"
      by (rule js_split_unfold)
    with split Cons obtain rest where "js_split CHR '' '' ?v =
        takeWhile (\<lambda>c. c \<noteq> CHR '' '') ?v # takeWhile (\<lambda>c. c \<noteq> CHR '' '') r # rest"
      by simp
    with assms show ?thesis
      unfolding getAuthBearerToken_def Cons by simp
  qed
  have special: "getAuthBearerToken request = Inr (Some tok)"
    if "hvalue h = ''Bearer '' @ tok" and "CHR '' '' \<notin> set tok" for tok
  proof -
    have "js_split CHR '' '' (''Bearer'' @ CHR '' '' # tok) = ''Bearer'' # js_split CHR '' '' tok"
      by (rule js_split_append) simp
    with that assms show ?thesis
      by (simp add: getAuthBearerToken_def js_split_no_sep)
  qed
  from general special show ?thesis by blast
qed

theorem getAuthBearerToken_scheme_witness:
  "headers (exampleEventRequest\<lparr>headers :=
       [''authorization'' \<mapsto> [\<lparr>key = ''Authorization'', hvalue = ''Bearer abc.def''\<rparr>]]\<rparr>)
     ''authorization'' = Some [\<lparr>key = ''Authorization'', hvalue = ''Bearer abc.def''\<rparr>]
   \<and> getAuthBearerToken (exampleEventRequest\<lparr>headers :=
       [''authorization'' \<mapsto> [\<lparr>key = ''Authorization'', hvalue = ''Bearer abc.def''\<rparr>]]\<rparr>)
     = Inr (Some ''abc.def'')"
  using getAuthBearerToken_scheme
    [of "exampleEventRequest\<lparr>headers :=
           [''authorization'' \<mapsto> [\<lparr>key = ''Authorization'', hvalue = ''Bearer abc.def''\<rparr>]]\<rparr>"
        "\<lparr>key = ''Authorization'', hvalue = ''Bearer abc.def''\<rparr>" "[]"]
  by simp

section \<open>The store is never written\<close>

lemma objects_record_call [simp]: "objects (record_call c s) = objects s"
  by (simp add: record_call_def)

lemma calls_record_call [simp]: "calls (record_call c s) = calls s @ [c]"
  by (simp add: record_call_def)

lemma swizzle_fields [simp]:
  "setCookieUri (swizzle env c) = setCookieUri c"
  "tokenCookieName (swizzle env c) = tokenCookieName c"
  "tokenCookieConfig (swizzle env c) = tokenCookieConfig c"
  "keyPairName (swizzle env c) = keyPairName c"
  "jwtVerify (swizzle env c) = jwtVerify c"
  by (simp_all add: swizzle_def Let_def split: option.splits)

lemma resolved_fields [simp]:
  "setCookieUri (resolved env c) = setCookieUri c"
  "tokenCookieName (resolved env c) = tokenCookieName c"
  "tokenCookieConfig (resolved env c) = tokenCookieConfig c"
  "keyPairName (resolved env c) = keyPairName c"
  "jwtVerifyOptions (resolved env c) = jwtVerifyOptions (swizzle env c)"
  by (simp_all add: resolved_def add_jwtVerify_def split: option.splits)

lemma verified_patterns_objects:
  "verified_patterns config this tok s = (res, s') \<Longrightarrow> objects s' = objects s"
  by (auto simp: verified_patterns_def call_jwtVerify_def split: sum.splits option.splits)

lemma issue_cookie_objects:
  "issue_cookie config extract r request s = (res, s') \<Longrightarrow> objects s' = objects s"
  by (auto simp: issue_cookie_def call_jwtVerify_def Let_def split: sum.splits option.splits)

lemma getAuthorizedRequest_objects:
  assumes "getAuthorizedRequest env
             \<lparr>ar_tokenCookieName = n, ar_getAuthorizedPatterns = verified_patterns config this\<rparr>
             event s = (res, s')"
  shows "objects s' = objects s"
  using assms
  by (auto simp: getAuthorizedRequest_def Let_def
           split: list.splits option.splits sum.splits prod.splits if_splits
           dest: verified_patterns_objects)

lemma getAuthorizedRequest_ref:
  assumes "getAuthorizedRequest env this event s = (Inr r, s')"
  shows "\<exists>rec rest. Records event = rec # rest \<and> r = cf_request rec"
  using assms
  by (auto simp: getAuthorizedRequest_def Let_def
           split: list.splits option.splits sum.splits prod.splits if_splits)

lemma authorize_objects:
  "authorize env config this event s = (res, s') \<Longrightarrow> objects s' = objects s"
  by (auto simp: authorize_def split: sum.splits prod.splits dest: getAuthorizedRequest_objects)

lemma frontAuth_try_objects:
  "frontAuth_try env this event ctx s = (res, s') \<Longrightarrow> objects s' = objects s"
  by (auto simp: frontAuth_try_def Let_def
           split: sum.splits list.splits option.splits if_splits
           dest: authorize_objects issue_cookie_objects)

lemma frontAuth_objects:
  "objects (snd (frontAuth env this event ctx s)) = objects s"
  by (auto simp: frontAuth_def split: prod.splits sum.splits dest: frontAuth_try_objects)

lemma issue_cookie_not_pass:
  "issue_cookie config extract r request s \<noteq> (Inr (PassThrough r'), s')"
  by (auto simp: issue_cookie_def call_jwtVerify_def Let_def split: sum.splits option.splits)

lemma authorize_pass:
  "authorize env config this event s = (Inr (PassThrough r), s') \<Longrightarrow>
     \<exists>rec rest. Records event = rec # rest \<and> r = cf_request rec"
  by (auto simp: authorize_def split: sum.splits prod.splits dest: getAuthorizedRequest_ref)

text \<open>
  C7: when the handler lets a request through, what it returns is the reference the
  event holds for its first record's request, the same object and not a copy, and the
  store is as it was: no field of any object has changed.
\<close>

theorem frontAuth_pass_through_identity:
  assumes "fst (frontAuth env this event ctx s) = PassThrough r"
  shows "(\<exists>rec rest. Records event = rec # rest \<and> r = cf_request rec)
         \<and> objects (snd (frontAuth env this event ctx s)) = objects s"
proof -
  obtain res s' where tr: "frontAuth_try env this event ctx s = (res, s')"
    by (cases "frontAuth_try env this event ctx s")
  with assms have res: "res = Inr (PassThrough r)"
    by (auto simp: frontAuth_def split: sum.splits)
  have "\<exists>rec rest. Records event = rec # rest \<and> r = cf_request rec"
    using tr unfolding res
    by (auto simp: frontAuth_try_def Let_def issue_cookie_not_pass
             split: sum.splits list.splits option.splits if_splits
             dest: authorize_pass)
  then show ?thesis by (simp add: frontAuth_objects)
qed

section \<open>The two flows\<close>

lemma frontAuth_try_config_fails:
  assumes "getConfigFromTags env (invokedFunctionArn ctx) = Inl e"
  shows "fst (frontAuth_try env this event ctx s) = Inl e"
  using assms by (simp add: frontAuth_try_def Let_def)

lemma frontAuth_try_issue:
  assumes "getConfigFromTags env (invokedFunctionArn ctx) = Inr config0"
      and "Records event = rec # rest"
      and "objects s (cf_request rec) = Some request"
      and "setCookieUri config0 = Some u" and "u \<noteq> []" and "uri request = u"
      and "getSetCookieToken this = Some extract"
  shows "frontAuth_try env this event ctx s =
           issue_cookie (resolved env config0) extract (cf_request rec) request
             (record_call (CallGetConfigFromTags (invokedFunctionArn ctx)) s)"
  using assms by (simp add: frontAuth_try_def Let_def)

lemma frontAuth_try_authorize:
  assumes "getConfigFromTags env (invokedFunctionArn ctx) = Inr config0"
      and "Records event = rec # rest"
      and "objects s (cf_request rec) = Some request"
      and "\<not> ((\<exists>u. setCookieUri config0 = Some u \<and> u \<noteq> [] \<and> uri request = u)
               \<and> getSetCookieToken this \<noteq> None)"
  shows "frontAuth_try env this event ctx s =
           authorize env (resolved env config0) this event
             (record_call (CallGetConfigFromTags (invokedFunctionArn ctx)) s)"
  using assms by (auto simp: frontAuth_try_def Let_def split: option.splits)

lemma frontAuth_try_authorize_unset:
  assumes "getConfigFromTags env (invokedFunctionArn ctx) = Inr config0"
      and "Records event = rec # rest"
      and "setCookieUri config0 = None \<or> setCookieUri config0 = Some [] \<or> getSetCookieToken this = None"
  shows "frontAuth_try env this event ctx s =
           authorize env (resolved env config0) this event
             (record_call (CallGetConfigFromTags (invokedFunctionArn ctx)) s)"
  using assms by (auto simp: frontAuth_try_def Let_def split: option.splits)

lemma issue_cookie_calls:
  "calls (snd (issue_cookie config extract r request s)) =
     calls s @ CallGetSetCookieToken r #
       (case extract request of
          Inl e \<Rightarrow> []
        | Inr tok \<Rightarrow>
            CallJwtVerify tok (keyPairName config) (jwtVerifyOptions config) #
              (case verify_with config tok of
                 Inl e \<Rightarrow> []
               | Inr cl \<Rightarrow> [CallSetCookieResponse tok]))"
  by (simp add: issue_cookie_def call_jwtVerify_def Let_def split: sum.splits)

lemma issue_cookie_result:
  "fst (issue_cookie config extract r request s) =
     (case extract request of
        Inl e \<Rightarrow> Inl e
      | Inr tok \<Rightarrow>
          (case verify_with config tok of
             Inl e \<Rightarrow> Inl e
           | Inr cl \<Rightarrow> Inr (Respond (setCookieResponse
               \<lparr>cookieName = tokenCookieName config,
                cookieConfig = Some (cookieConfig_of (tokenCookieConfig config)),
                token = tok\<rparr>))))"
  by (simp add: issue_cookie_def call_jwtVerify_def Let_def split: sum.splits)

lemma verified_patterns_result:
  "fst (verified_patterns config this tok s) =
     (case verify_with config tok of
        Inl e \<Rightarrow> Inl e
      | Inr cl \<Rightarrow>
          (case getAuthorizedPatterns this of
             None \<Rightarrow> Inl TypeError
           | Some derive \<Rightarrow> derive config cl))"
  by (simp add: verified_patterns_def call_jwtVerify_def split: sum.splits option.splits)

lemma verified_patterns_calls:
  "calls (snd (verified_patterns config this tok s)) =
     calls s @ CallJwtVerify tok (keyPairName config) (jwtVerifyOptions config) #
       (case verify_with config tok of
          Inl e \<Rightarrow> []
        | Inr cl \<Rightarrow>
            (case getAuthorizedPatterns this of
               None \<Rightarrow> []
             | Some derive \<Rightarrow> [CallGetAuthorizedPatterns cl]))"
  by (simp add: verified_patterns_def call_jwtVerify_def split: sum.splits option.splits)

text \<open>The authorization flow on a request that is in the store.\<close>

lemma authorize_result:
  assumes "Records event = rec # rest" and "objects s (cf_request rec) = Some request"
  shows "fst (authorize env config this event s) =
     (case verify_with config
             (parseCookies env (headers request) (template_string (tokenCookieName config))) of
        Inl e \<Rightarrow> Inl e
      | Inr cl \<Rightarrow>
          (case getAuthorizedPatterns this of
             None \<Rightarrow> Inl TypeError
           | Some derive \<Rightarrow>
               (case derive config cl of
                  Inl e \<Rightarrow> Inl e
                | Inr patterns \<Rightarrow>
                    (case some_test (\<lambda>re. regExp_test env re (uri request)) patterns of
                       Inl e \<Rightarrow> Inl e
                     | Inr matched \<Rightarrow>
                         if matched then Inr (PassThrough (cf_request rec)) else Inl EACCES))))"
proof -
  let ?tok = "parseCookies env (headers request) (template_string (tokenCookieName config))"
  let ?s1 = "record_call CallGetAuthorizedRequest s"
  obtain res s' where vp: "verified_patterns config this ?tok ?s1 = (res, s')"
    by (cases "verified_patterns config this ?tok ?s1")
  then have o: "objects s' = objects s"
    by (auto dest: verified_patterns_objects)
  from vp have r: "res = (case verify_with config ?tok of
        Inl e \<Rightarrow> Inl e
      | Inr cl \<Rightarrow>
          (case getAuthorizedPatterns this of
             None \<Rightarrow> Inl TypeError
           | Some derive \<Rightarrow> derive config cl))"
    using verified_patterns_result [of config this ?tok ?s1] by simp
  show ?thesis
    using assms vp o
    by (simp add: authorize_def getAuthorizedRequest_def Let_def r
             split: sum.splits option.splits)
qed

lemma authorize_calls:
  assumes "Records event = rec # rest" and "objects s (cf_request rec) = Some request"
  shows "calls (snd (authorize env config this event s)) =
     calls s @ CallGetAuthorizedRequest #
       CallJwtVerify (parseCookies env (headers request) (template_string (tokenCookieName config)))
         (keyPairName config) (jwtVerifyOptions config) #
       (case verify_with config
               (parseCookies env (headers request) (template_string (tokenCookieName config))) of
          Inl e \<Rightarrow> []
        | Inr cl \<Rightarrow>
            (case getAuthorizedPatterns this of
               None \<Rightarrow> []
             | Some derive \<Rightarrow> [CallGetAuthorizedPatterns cl]))"
proof -
  let ?tok = "parseCookies env (headers request) (template_string (tokenCookieName config))"
  let ?s1 = "record_call CallGetAuthorizedRequest s"
  obtain res s' where vp: "verified_patterns config this ?tok ?s1 = (res, s')"
    by (cases "verified_patterns config this ?tok ?s1")
  then have o: "objects s' = objects s"
    by (auto dest: verified_patterns_objects)
  from vp have c: "calls s' = calls ?s1 @
       CallJwtVerify ?tok (keyPairName config) (jwtVerifyOptions config) #
       (case verify_with config ?tok of
          Inl e \<Rightarrow> []
        | Inr cl \<Rightarrow>
            (case getAuthorizedPatterns this of
               None \<Rightarrow> []
             | Some derive \<Rightarrow> [CallGetAuthorizedPatterns cl]))"
    using verified_patterns_calls [of config this ?tok ?s1] by simp
  show ?thesis
    using assms vp o
    by (simp add: authorize_def getAuthorizedRequest_def Let_def c
             split: sum.splits option.splits)
qed

lemma authorize_first_call:
  "\<exists>cs. calls (snd (authorize env config this event s)) = calls s @ CallGetAuthorizedRequest # cs
        \<and> (\<forall>r. CallGetSetCookieToken r \<notin> set cs) \<and> (\<forall>t. CallSetCookieResponse t \<notin> set cs)"
proof (cases "Records event")
  case Nil
  then show ?thesis
    by (simp add: authorize_def getAuthorizedRequest_def Let_def)
next
  case (Cons rec rest)
  show ?thesis
  proof (cases "objects s (cf_request rec)")
    case None
    with Cons show ?thesis
      by (simp add: authorize_def getAuthorizedRequest_def Let_def)
  next
    case (Some request)
    show ?thesis
      unfolding authorize_calls [OF Cons Some]
      by (simp split: sum.splits option.splits)
  qed
qed

lemma authorize_no_response:
  "fst (authorize env config this event s) \<noteq> Inr (Respond resp)"
  by (simp add: authorize_def split: prod.splits sum.splits)

lemma frontAuth_fst:
  "fst (frontAuth env this event ctx s) =
     (case fst (frontAuth_try env this event ctx s) of
        Inl e \<Rightarrow> Respond forbidden
      | Inr out \<Rightarrow> out)"
  by (simp add: frontAuth_def split: prod.splits sum.splits)

lemma frontAuth_snd:
  "snd (frontAuth env this event ctx s) = snd (frontAuth_try env this event ctx s)"
  by (simp add: frontAuth_def split: prod.splits sum.splits)

text \<open>The five ways through the body of the handler.\<close>

lemma frontAuth_try_cases:
  obtains
    (ConfigFails) e where
      "getConfigFromTags env (invokedFunctionArn ctx) = Inl e"
      "frontAuth_try env this event ctx s =
         (Inl e, record_call (CallGetConfigFromTags (invokedFunctionArn ctx)) s)"
  | (NoRecord) config0 where
      "getConfigFromTags env (invokedFunctionArn ctx) = Inr config0"
      "Records event = []"
      "frontAuth_try env this event ctx s =
         (Inl TypeError, record_call (CallGetConfigFromTags (invokedFunctionArn ctx)) s)"
  | (NoRequest) config0 rec rest where
      "getConfigFromTags env (invokedFunctionArn ctx) = Inr config0"
      "Records event = rec # rest"
      "objects s (cf_request rec) = None"
      "fst (frontAuth_try env this event ctx s) = Inl TypeError"
      "calls (snd (frontAuth_try env this event ctx s)) =
         calls s @ [CallGetConfigFromTags (invokedFunctionArn ctx)]
       \<or> calls (snd (frontAuth_try env this event ctx s)) =
         calls s @ [CallGetConfigFromTags (invokedFunctionArn ctx), CallGetAuthorizedRequest]"
  | (Issue) config0 rec rest request extr where
      "getConfigFromTags env (invokedFunctionArn ctx) = Inr config0"
      "Records event = rec # rest"
      "objects s (cf_request rec) = Some request"
      "setCookieUri config0 = Some (uri request)" "uri request \<noteq> []"
      "getSetCookieToken this = Some extr"
      "frontAuth_try env this event ctx s =
         issue_cookie (resolved env config0) extr (cf_request rec) request
           (record_call (CallGetConfigFromTags (invokedFunctionArn ctx)) s)"
  | (Authorize) config0 rec rest request where
      "getConfigFromTags env (invokedFunctionArn ctx) = Inr config0"
      "Records event = rec # rest"
      "objects s (cf_request rec) = Some request"
      "\<not> ((\<exists>u. setCookieUri config0 = Some u \<and> u \<noteq> [] \<and> uri request = u)
           \<and> getSetCookieToken this \<noteq> None)"
      "frontAuth_try env this event ctx s =
         authorize env (resolved env config0) this event
           (record_call (CallGetConfigFromTags (invokedFunctionArn ctx)) s)"
proof (cases "getConfigFromTags env (invokedFunctionArn ctx)")
  case (Inl e)
  then show ?thesis
    by (intro ConfigFails [of e]) (simp_all add: frontAuth_try_def Let_def)
next
  case (Inr config0)
  show ?thesis
  proof (cases "Records event")
    case Nil
    with Inr show ?thesis
      by (intro NoRecord [of config0]) (simp_all add: frontAuth_try_def Let_def)
  next
    case (Cons rec rest)
    show ?thesis
    proof (cases "objects s (cf_request rec)")
      case None
      show ?thesis
      proof (rule NoRequest [OF Inr Cons None])
        show "fst (frontAuth_try env this event ctx s) = Inl TypeError"
          using Inr Cons None
          by (auto simp: frontAuth_try_def Let_def authorize_def getAuthorizedRequest_def
                   split: option.splits)
        show "calls (snd (frontAuth_try env this event ctx s)) =
                calls s @ [CallGetConfigFromTags (invokedFunctionArn ctx)]
              \<or> calls (snd (frontAuth_try env this event ctx s)) =
                calls s @ [CallGetConfigFromTags (invokedFunctionArn ctx), CallGetAuthorizedRequest]"
          using Inr Cons None
          by (auto simp: frontAuth_try_def Let_def authorize_def getAuthorizedRequest_def
                   split: option.splits)
      qed
    next
      case (Some request)
      show ?thesis
      proof (cases "(\<exists>u. setCookieUri config0 = Some u \<and> u \<noteq> [] \<and> uri request = u)
                      \<and> getSetCookieToken this \<noteq> None")
        case True
        then obtain extr where ex: "getSetCookieToken this = Some extr"
          and u: "setCookieUri config0 = Some (uri request)" "uri request \<noteq> []"
          by auto
        show ?thesis
          by (rule Issue [OF Inr Cons Some u ex])
             (rule frontAuth_try_issue [OF Inr Cons Some u(1) u(2) refl ex])
      next
        case False
        show ?thesis
          by (rule Authorize [OF Inr Cons Some False])
             (rule frontAuth_try_authorize [OF Inr Cons Some False])
      qed
    qed
  qed
qed

section \<open>Flow selection\<close>

text \<open>
  What the guard on line 149 decides, for a configuration that resolves and a request
  the event holds: \<open>getSetCookieToken\<close> is called exactly when \<open>setCookieUri\<close> is
  configured and not empty, a helper is bound and the URI equals \<open>setCookieUri\<close>;
  otherwise \<open>getAuthorizedRequest\<close> is called.
\<close>

lemma frontAuth_flow_selection:
  assumes cfg: "getConfigFromTags env (invokedFunctionArn ctx) = Inr config0"
      and ev: "Records event = rec # rest"
      and obj: "objects s (cf_request rec) = Some request"
      and fresh: "calls s = []"
  shows "(CallGetSetCookieToken (cf_request rec) \<in> set (calls (snd (frontAuth env this event ctx s)))
            \<longleftrightarrow> (\<exists>u. setCookieUri config0 = Some u \<and> u \<noteq> [] \<and> uri request = u)
                 \<and> getSetCookieToken this \<noteq> None)
       \<and> (CallGetAuthorizedRequest \<in> set (calls (snd (frontAuth env this event ctx s)))
            \<longleftrightarrow> \<not> ((\<exists>u. setCookieUri config0 = Some u \<and> u \<noteq> [] \<and> uri request = u)
                   \<and> getSetCookieToken this \<noteq> None))
       \<and> (\<forall>extr tok cl.
             setCookieUri config0 = Some (uri request) \<and> uri request \<noteq> []
             \<and> getSetCookieToken this = Some extr
             \<and> extr request = Inr tok \<and> verify_with (resolved env config0) tok = Inr cl
             \<longrightarrow> fst (frontAuth env this event ctx s) =
                   Respond (setCookieResponse
                     \<lparr>cookieName = tokenCookieName config0,
                      cookieConfig = Some (cookieConfig_of (tokenCookieConfig config0)),
                      token = tok\<rparr>))"
proof (cases rule: frontAuth_try_cases [of env ctx this event s])
  case (ConfigFails e)
  with cfg show ?thesis by simp
next
  case (NoRecord c)
  with ev show ?thesis by simp
next
  case (NoRequest c r rs)
  with ev obj show ?thesis by simp
next
  case (Issue c r rs rq extr)
  with cfg ev obj have same: "c = config0" "r = rec" "rq = request" by simp_all
  have cs: "calls (snd (frontAuth env this event ctx s)) =
      CallGetConfigFromTags (invokedFunctionArn ctx) # CallGetSetCookieToken (cf_request rec) #
       (case extr request of
          Inl e \<Rightarrow> []
        | Inr tok \<Rightarrow>
            CallJwtVerify tok (keyPairName config0) (jwtVerifyOptions (swizzle env config0)) #
              (case verify_with (resolved env config0) tok of
                 Inl e \<Rightarrow> []
               | Inr cl \<Rightarrow> [CallSetCookieResponse tok]))"
    using Issue(7) fresh unfolding same frontAuth_snd
    by (simp add: issue_cookie_calls split: sum.splits)
  have res: "fst (frontAuth_try env this event ctx s) =
     (case extr request of
        Inl e \<Rightarrow> Inl e
      | Inr tok \<Rightarrow>
          (case verify_with (resolved env config0) tok of
             Inl e \<Rightarrow> Inl e
           | Inr cl \<Rightarrow> Inr (Respond (setCookieResponse
               \<lparr>cookieName = tokenCookieName config0,
                cookieConfig = Some (cookieConfig_of (tokenCookieConfig config0)),
                token = tok\<rparr>))))"
    using Issue(7) unfolding same by (simp add: issue_cookie_result split: sum.splits)
  show ?thesis
    using Issue(4,5,6) unfolding same cs frontAuth_fst res
    by (auto split: sum.splits)
next
  case (Authorize c r rs rq)
  with cfg ev obj have same: "c = config0" "r = rec" "rq = request" by simp_all
  obtain cs where cs: "calls (snd (frontAuth env this event ctx s)) =
      CallGetConfigFromTags (invokedFunctionArn ctx) # CallGetAuthorizedRequest # cs"
    and no: "\<forall>r. CallGetSetCookieToken r \<notin> set cs"
    using authorize_first_call
      [of env "resolved env config0" this event
          "record_call (CallGetConfigFromTags (invokedFunctionArn ctx)) s"]
      Authorize(5) fresh unfolding same frontAuth_snd
    by auto
  show ?thesis
    using Authorize(4) no unfolding same cs by auto
qed

text \<open>
  C10: when the resolved configuration has no \<open>setCookieUri\<close> (absent or empty) or no
  \<open>getSetCookieToken\<close> helper is bound, the request goes to \<open>getAuthorizedRequest\<close>,
  whatever its method and URI; \<open>getSetCookieToken\<close> and \<open>setCookieResponse\<close> are never
  called and the only response the handler can give is Forbidden.
\<close>

theorem frontAuth_without_set_cookie:
  assumes cfg: "getConfigFromTags env (invokedFunctionArn ctx) = Inr config0"
      and ev: "Records event = rec # rest"
      and fresh: "calls s = []"
      and unset: "setCookieUri config0 = None \<or> setCookieUri config0 = Some []
                  \<or> getSetCookieToken this = None"
  shows "CallGetAuthorizedRequest \<in> set (calls (snd (frontAuth env this event ctx s)))
       \<and> (\<forall>r. CallGetSetCookieToken r \<notin> set (calls (snd (frontAuth env this event ctx s))))
       \<and> (\<forall>tok. CallSetCookieResponse tok \<notin> set (calls (snd (frontAuth env this event ctx s))))
       \<and> (\<forall>resp. fst (frontAuth env this event ctx s) = Respond resp \<longrightarrow>
             resp = \<lparr>status = ''403'', statusDescription = ''Forbidden'', response_headers = None\<rparr>)"
proof -
  have tr: "frontAuth_try env this event ctx s =
           authorize env (resolved env config0) this event
             (record_call (CallGetConfigFromTags (invokedFunctionArn ctx)) s)"
    by (rule frontAuth_try_authorize_unset [OF cfg ev unset])
  obtain cs where cs: "calls (snd (frontAuth env this event ctx s)) =
      CallGetConfigFromTags (invokedFunctionArn ctx) # CallGetAuthorizedRequest # cs"
    and no: "\<forall>r. CallGetSetCookieToken r \<notin> set cs" "\<forall>t. CallSetCookieResponse t \<notin> set cs"
    using authorize_first_call
      [of env "resolved env config0" this event
          "record_call (CallGetConfigFromTags (invokedFunctionArn ctx)) s"]
      tr fresh unfolding frontAuth_snd
    by auto
  have "fst (frontAuth env this event ctx s) = Respond resp \<Longrightarrow> resp = forbidden" for resp
    using authorize_no_response
      [of env "resolved env config0" this event
          "record_call (CallGetConfigFromTags (invokedFunctionArn ctx)) s" resp]
    unfolding frontAuth_fst tr
    by (auto split: sum.splits)
  then show ?thesis
    using no unfolding cs by (auto simp: forbidden_def)
qed


section \<open>Failure and verification\<close>

text \<open>
  C2: whichever step fails, the handler returns the record with status 403 and
  description Forbidden and nothing else. The steps are listed in the hypothesis:
  configuration lookup; reading the request from the event; in the issuance flow, token
  extraction and verification; in the authorization flow, verification of the cookie's
  token, a missing or failing pattern helper, and a pattern test that raises or finds
  no match.
\<close>

theorem frontAuth_failure_collapse:
  assumes fails:
    "(\<exists>e. getConfigFromTags env (invokedFunctionArn ctx) = Inl e)
     \<or> (\<exists>config0. getConfigFromTags env (invokedFunctionArn ctx) = Inr config0
           \<and> Records event = [])
     \<or> (\<exists>config0 rec rest. getConfigFromTags env (invokedFunctionArn ctx) = Inr config0
           \<and> Records event = rec # rest \<and> objects s (cf_request rec) = None)
     \<or> (\<exists>config0 rec rest request.
           getConfigFromTags env (invokedFunctionArn ctx) = Inr config0
           \<and> Records event = rec # rest \<and> objects s (cf_request rec) = Some request
           \<and> (if (\<exists>u. setCookieUri config0 = Some u \<and> u \<noteq> [] \<and> uri request = u)
                   \<and> getSetCookieToken this \<noteq> None
               then \<exists>extr. getSetCookieToken this = Some extr
                      \<and> ((\<exists>e. extr request = Inl e)
                         \<or> (\<exists>tok e. extr request = Inr tok
                               \<and> verify_with (resolved env config0) tok = Inl e))
               else (\<exists>e. verify_with (resolved env config0)
                            (parseCookies env (headers request)
                               (template_string (tokenCookieName config0))) = Inl e)
                    \<or> (\<exists>cl. verify_with (resolved env config0)
                              (parseCookies env (headers request)
                                 (template_string (tokenCookieName config0))) = Inr cl
                          \<and> (getAuthorizedPatterns this = None
                             \<or> (\<exists>derive. getAuthorizedPatterns this = Some derive
                                   \<and> ((\<exists>e. derive (resolved env config0) cl = Inl e)
                                      \<or> (\<exists>P. derive (resolved env config0) cl = Inr P
                                            \<and> some_test (\<lambda>re. regExp_test env re (uri request)) P
                                                \<noteq> Inr True)))))))"
  shows "fst (frontAuth env this event ctx s) =
           Respond \<lparr>status = ''403'', statusDescription = ''Forbidden'', response_headers = None\<rparr>"
proof -
  have "\<exists>e. fst (frontAuth_try env this event ctx s) = Inl e"
  proof (cases rule: frontAuth_try_cases [of env ctx this event s])
    case (ConfigFails e)
    then show ?thesis by simp
  next
    case (NoRecord c)
    then show ?thesis by simp
  next
    case (NoRequest c r rs)
    then show ?thesis by simp
  next
    case (Issue c r rs rq extr)
    from fails Issue(1-6)
    have "(\<exists>e. extr rq = Inl e)
           \<or> (\<exists>tok e. extr rq = Inr tok \<and> verify_with (resolved env c) tok = Inl e)"
      by auto
    then show ?thesis
      unfolding Issue(7) issue_cookie_result by (auto split: sum.splits)
  next
    case (Authorize c r rs rq)
    let ?tok = "parseCookies env (headers rq) (template_string (tokenCookieName c))"
    from fails Authorize(1-4)
    have "(\<exists>e. verify_with (resolved env c) ?tok = Inl e)
          \<or> (\<exists>cl. verify_with (resolved env c) ?tok = Inr cl
                \<and> (getAuthorizedPatterns this = None
                   \<or> (\<exists>derive. getAuthorizedPatterns this = Some derive
                         \<and> ((\<exists>e. derive (resolved env c) cl = Inl e)
                            \<or> (\<exists>P. derive (resolved env c) cl = Inr P
                                  \<and> some_test (\<lambda>re. regExp_test env re (uri rq)) P
                                      \<noteq> Inr True)))))"
      by (auto split: if_splits)
    moreover have "fst (frontAuth_try env this event ctx s) =
       (case verify_with (resolved env c) ?tok of
          Inl e \<Rightarrow> Inl e
        | Inr cl \<Rightarrow>
            (case getAuthorizedPatterns this of
               None \<Rightarrow> Inl TypeError
             | Some derive \<Rightarrow>
                 (case derive (resolved env c) cl of
                    Inl e \<Rightarrow> Inl e
                  | Inr patterns \<Rightarrow>
                      (case some_test (\<lambda>re. regExp_test env re (uri rq)) patterns of
                         Inl e \<Rightarrow> Inl e
                       | Inr matched \<Rightarrow>
                           if matched then Inr (PassThrough (cf_request r)) else Inl EACCES))))"
      unfolding Authorize(5)
      by (simp add: authorize_result [OF Authorize(2), of _ rq] Authorize(3))
    ultimately show ?thesis
      by (auto split: sum.splits option.splits)
  qed
  then show ?thesis
    by (auto simp: frontAuth_fst forbidden_def)
qed

lemma called_before_Cons:
  "called_before a b (c # cs) = (if c = a then b \<in> set cs else called_before a b cs)"
  by (simp add: called_before_def)

text \<open>
  C3: \<open>getAuthorizedPatterns\<close> is called only with claims a preceding successful call
  of the verifier returned; a response carrying headers is the cookie response, built
  after the verifier accepted the submitted token; a request is let through only after
  \<open>getAuthorizedPatterns\<close> was called; and a token the verifier rejects gives Forbidden.
\<close>

theorem frontAuth_verified_tokens_only:
  assumes fresh: "calls s = []"
  shows "(\<forall>cl. CallGetAuthorizedPatterns cl \<in> set (calls (snd (frontAuth env this event ctx s))) \<longrightarrow>
            (\<exists>config0 tok.
               getConfigFromTags env (invokedFunctionArn ctx) = Inr config0
               \<and> verify_with (resolved env config0) tok = Inr cl
               \<and> called_before
                    (CallJwtVerify tok (keyPairName config0) (jwtVerifyOptions (swizzle env config0)))
                    (CallGetAuthorizedPatterns cl)
                    (calls (snd (frontAuth env this event ctx s)))))
       \<and> (\<forall>resp. fst (frontAuth env this event ctx s) = Respond resp
                    \<and> response_headers resp \<noteq> None \<longrightarrow>
            (\<exists>config0 tok cl.
               getConfigFromTags env (invokedFunctionArn ctx) = Inr config0
               \<and> verify_with (resolved env config0) tok = Inr cl
               \<and> called_before
                    (CallJwtVerify tok (keyPairName config0) (jwtVerifyOptions (swizzle env config0)))
                    (CallSetCookieResponse tok)
                    (calls (snd (frontAuth env this event ctx s)))
               \<and> resp = setCookieResponse
                    \<lparr>cookieName = tokenCookieName config0,
                     cookieConfig = Some (cookieConfig_of (tokenCookieConfig config0)),
                     token = tok\<rparr>))
       \<and> (\<forall>r. fst (frontAuth env this event ctx s) = PassThrough r \<longrightarrow>
            (\<exists>cl. CallGetAuthorizedPatterns cl
                    \<in> set (calls (snd (frontAuth env this event ctx s)))))
       \<and> (\<forall>config0 tok e.
            getConfigFromTags env (invokedFunctionArn ctx) = Inr config0
            \<and> CallJwtVerify tok (keyPairName config0) (jwtVerifyOptions (swizzle env config0))
                 \<in> set (calls (snd (frontAuth env this event ctx s)))
            \<and> verify_with (resolved env config0) tok = Inl e
            \<longrightarrow> fst (frontAuth env this event ctx s) = Respond forbidden)"
proof (cases rule: frontAuth_try_cases [of env ctx this event s])
  case (ConfigFails e)
  then show ?thesis
    using fresh by (simp add: frontAuth_fst frontAuth_snd forbidden_def)
next
  case (NoRecord c)
  then show ?thesis
    using fresh by (simp add: frontAuth_fst frontAuth_snd forbidden_def)
next
  case (NoRequest c r rs)
  then show ?thesis
    using fresh by (auto simp: frontAuth_fst frontAuth_snd forbidden_def)
next
  case (Issue c r rs rq extr)
  have cs: "calls (snd (frontAuth env this event ctx s)) =
      CallGetConfigFromTags (invokedFunctionArn ctx) # CallGetSetCookieToken (cf_request r) #
       (case extr rq of
          Inl e \<Rightarrow> []
        | Inr tok \<Rightarrow>
            CallJwtVerify tok (keyPairName c) (jwtVerifyOptions (swizzle env c)) #
              (case verify_with (resolved env c) tok of
                 Inl e \<Rightarrow> []
               | Inr cl \<Rightarrow> [CallSetCookieResponse tok]))"
    using Issue(7) fresh unfolding frontAuth_snd
    by (simp add: issue_cookie_calls split: sum.splits)
  have res: "fst (frontAuth_try env this event ctx s) =
     (case extr rq of
        Inl e \<Rightarrow> Inl e
      | Inr tok \<Rightarrow>
          (case verify_with (resolved env c) tok of
             Inl e \<Rightarrow> Inl e
           | Inr cl \<Rightarrow> Inr (Respond (setCookieResponse
               \<lparr>cookieName = tokenCookieName c,
                cookieConfig = Some (cookieConfig_of (tokenCookieConfig c)),
                token = tok\<rparr>))))"
    using Issue(7) by (simp add: issue_cookie_result split: sum.splits)
  show ?thesis
    using Issue(1) unfolding cs frontAuth_fst res
    by (auto simp: called_before_Cons forbidden_def split: sum.splits)
next
  case (Authorize c r rs rq)
  let ?tok = "parseCookies env (headers rq) (template_string (tokenCookieName c))"
  have cs: "calls (snd (frontAuth env this event ctx s)) =
     CallGetConfigFromTags (invokedFunctionArn ctx) # CallGetAuthorizedRequest #
       CallJwtVerify ?tok (keyPairName c) (jwtVerifyOptions (swizzle env c)) #
       (case verify_with (resolved env c) ?tok of
          Inl e \<Rightarrow> []
        | Inr cl \<Rightarrow>
            (case getAuthorizedPatterns this of
               None \<Rightarrow> []
             | Some derive \<Rightarrow> [CallGetAuthorizedPatterns cl]))"
    using fresh unfolding frontAuth_snd Authorize(5)
    by (simp add: authorize_calls [OF Authorize(2), of _ rq] Authorize(3))
  have res: "fst (frontAuth_try env this event ctx s) =
     (case verify_with (resolved env c) ?tok of
        Inl e \<Rightarrow> Inl e
      | Inr cl \<Rightarrow>
          (case getAuthorizedPatterns this of
             None \<Rightarrow> Inl TypeError
           | Some derive \<Rightarrow>
               (case derive (resolved env c) cl of
                  Inl e \<Rightarrow> Inl e
                | Inr patterns \<Rightarrow>
                    (case some_test (\<lambda>re. regExp_test env re (uri rq)) patterns of
                       Inl e \<Rightarrow> Inl e
                     | Inr matched \<Rightarrow>
                         if matched then Inr (PassThrough (cf_request r)) else Inl EACCES))))"
    unfolding Authorize(5)
    by (simp add: authorize_result [OF Authorize(2), of _ rq] Authorize(3))
  show ?thesis
    using Authorize(1) unfolding cs frontAuth_fst res
    by (auto simp: called_before_Cons forbidden_def split: sum.splits option.splits if_splits)
qed

section \<open>Pattern authorization\<close>

lemma some_test_True:
  "some_test t P = Inr True \<longleftrightarrow>
     (\<exists>pre p post. P = pre @ p # post \<and> t p = Inr True \<and> (\<forall>q\<in>set pre. t q = Inr False))"
proof (induction P)
  case Nil
  then show ?case by simp
next
  case (Cons re res)
  show ?case
  proof (cases "t re")
    case (Inl e)
    have "\<not> (\<exists>pre p post. re # res = pre @ p # post \<and> t p = Inr True
                \<and> (\<forall>q\<in>set pre. t q = Inr False))"
    proof
      assume "\<exists>pre p post. re # res = pre @ p # post \<and> t p = Inr True
                \<and> (\<forall>q\<in>set pre. t q = Inr False)"
      then obtain pre p post where d: "re # res = pre @ p # post" "t p = Inr True"
        "\<forall>q\<in>set pre. t q = Inr False" by blast
      then show False using Inl by (cases pre) auto
    qed
    with Inl show ?thesis by simp
  next
    case (Inr matched)
    show ?thesis
    proof (cases matched)
      case True
      with Inr have "re # res = [] @ re # res \<and> t re = Inr True \<and> (\<forall>q\<in>set []. t q = Inr False)"
        by simp
      then have "\<exists>pre p post. re # res = pre @ p # post \<and> t p = Inr True
                \<and> (\<forall>q\<in>set pre. t q = Inr False)" by blast
      with Inr True show ?thesis by simp
    next
      case False
      have "(\<exists>pre p post. re # res = pre @ p # post \<and> t p = Inr True
                \<and> (\<forall>q\<in>set pre. t q = Inr False))
            \<longleftrightarrow> (\<exists>pre p post. res = pre @ p # post \<and> t p = Inr True
                \<and> (\<forall>q\<in>set pre. t q = Inr False))"
      proof
        assume "\<exists>pre p post. re # res = pre @ p # post \<and> t p = Inr True
                \<and> (\<forall>q\<in>set pre. t q = Inr False)"
        then obtain pre p post where d: "re # res = pre @ p # post" "t p = Inr True"
          "\<forall>q\<in>set pre. t q = Inr False" by blast
        show "\<exists>pre p post. res = pre @ p # post \<and> t p = Inr True
                \<and> (\<forall>q\<in>set pre. t q = Inr False)"
        proof (cases pre)
          case Nil
          with d Inr False show ?thesis by simp
        next
          case (Cons a pre')
          with d have "res = pre' @ p # post" "\<forall>q\<in>set pre'. t q = Inr False" by simp_all
          with d(2) show ?thesis by blast
        qed
      next
        assume "\<exists>pre p post. res = pre @ p # post \<and> t p = Inr True
                \<and> (\<forall>q\<in>set pre. t q = Inr False)"
        then obtain pre p post where d: "res = pre @ p # post" "t p = Inr True"
          "\<forall>q\<in>set pre. t q = Inr False" by blast
        with Inr False have "re # res = (re # pre) @ p # post \<and> t p = Inr True
          \<and> (\<forall>q\<in>set (re # pre). t q = Inr False)" by simp
        then show "\<exists>pre p post. re # res = pre @ p # post \<and> t p = Inr True
                \<and> (\<forall>q\<in>set pre. t q = Inr False)" by blast
      qed
      with Inr False Cons.IH show ?thesis by simp
    qed
  qed
qed

lemma some_test_all_compile:
  assumes "\<forall>p\<in>set P. \<exists>b. t p = Inr b"
  shows "some_test t P = Inr (\<exists>p\<in>set P. t p = Inr True)"
  using assms
proof (induction P)
  case Nil
  then show ?case by simp
next
  case (Cons re res)
  then obtain b where b: "t re = Inr b" by auto
  from Cons have "some_test t res = Inr (\<exists>p\<in>set res. t p = Inr True)" by simp
  with b show ?case by (cases b) auto
qed

lemma getAuthorizedRequest_result:
  assumes ev: "Records event = rec # rest"
      and obj: "objects s (cf_request rec) = Some request"
      and pat: "ar_getAuthorizedPatterns this
                  (parseCookies env (headers request) (template_string (ar_tokenCookieName this)))
                  (record_call CallGetAuthorizedRequest s) = (Inr P, s')"
      and obj': "objects s' (cf_request rec) = Some request"
  shows "fst (getAuthorizedRequest env this event s) =
           (case some_test (\<lambda>re. regExp_test env re (uri request)) P of
              Inl e \<Rightarrow> Inl e
            | Inr matched \<Rightarrow> if matched then Inr (cf_request rec) else Inl EACCES)"
  using assms
  by (simp add: getAuthorizedRequest_def Let_def split: sum.splits)

text \<open>
  C4, amended: with \<open>P\<close> the pattern set obtained for the request's token, the request
  is allowed exactly when some pattern of \<open>P\<close> matches the URI and every pattern before
  it in \<open>P\<close> compiles and does not match; the pattern is handed to the runtime as it
  is, so matching is unanchored unless the pattern anchors. When every pattern of \<open>P\<close>
  compiles, this is: exactly when some pattern of \<open>P\<close> matches. The reference returned
  is the event's own, and an empty \<open>P\<close> always denies.
\<close>

theorem getAuthorizedRequest_allows:
  assumes ev: "Records event = rec # rest"
      and obj: "objects s (cf_request rec) = Some request"
      and pat: "ar_getAuthorizedPatterns this
                  (parseCookies env (headers request) (template_string (ar_tokenCookieName this)))
                  (record_call CallGetAuthorizedRequest s) = (Inr P, s')"
      and obj': "objects s' (cf_request rec) = Some request"
  shows "(fst (getAuthorizedRequest env this event s) = Inr (cf_request rec)
            \<longleftrightarrow> (\<exists>pre p post. P = pre @ p # post
                   \<and> regExp_test env p (uri request) = Inr True
                   \<and> (\<forall>q\<in>set pre. regExp_test env q (uri request) = Inr False)))
       \<and> ((\<forall>p\<in>set P. \<exists>b. regExp_test env p (uri request) = Inr b) \<longrightarrow>
            (fst (getAuthorizedRequest env this event s) = Inr (cf_request rec)
               \<longleftrightarrow> (\<exists>p\<in>set P. regExp_test env p (uri request) = Inr True)))
       \<and> (\<forall>r. fst (getAuthorizedRequest env this event s) = Inr r \<longrightarrow> r = cf_request rec)
       \<and> (P = [] \<longrightarrow> fst (getAuthorizedRequest env this event s) = Inl EACCES)"
proof -
  let ?t = "\<lambda>re. regExp_test env re (uri request)"
  have res: "fst (getAuthorizedRequest env this event s) =
           (case some_test ?t P of
              Inl e \<Rightarrow> Inl e
            | Inr matched \<Rightarrow> if matched then Inr (cf_request rec) else Inl EACCES)"
    by (rule getAuthorizedRequest_result [OF ev obj pat obj'])
  have allowed: "fst (getAuthorizedRequest env this event s) = Inr (cf_request rec)
                   \<longleftrightarrow> some_test ?t P = Inr True"
    unfolding res by (auto split: sum.splits)
  have first: "fst (getAuthorizedRequest env this event s) = Inr (cf_request rec)
            \<longleftrightarrow> (\<exists>pre p post. P = pre @ p # post \<and> ?t p = Inr True
                   \<and> (\<forall>q\<in>set pre. ?t q = Inr False))"
    unfolding allowed by (rule some_test_True)
  have valid: "fst (getAuthorizedRequest env this event s) = Inr (cf_request rec)
               \<longleftrightarrow> (\<exists>p\<in>set P. ?t p = Inr True)"
    if "\<forall>p\<in>set P. \<exists>b. ?t p = Inr b"
    unfolding allowed using some_test_all_compile [OF that] by simp
  have same: "\<forall>r. fst (getAuthorizedRequest env this event s) = Inr r \<longrightarrow> r = cf_request rec"
    unfolding res by (auto split: sum.splits if_splits)
  have empty: "P = [] \<longrightarrow> fst (getAuthorizedRequest env this event s) = Inl EACCES"
    unfolding res by simp
  from first valid same empty show ?thesis by blast
qed

section \<open>The cookie response\<close>

lemma dropWhile_id: "xs = [] \<or> \<not> P (hd xs) \<Longrightarrow> dropWhile P xs = xs"
  by (cases xs) auto

lemma js_trim_id:
  assumes "s = [] \<or> (\<not> white_space (hd s) \<and> \<not> white_space (last s))"
  shows "js_trim s = s"
proof (cases "s = []")
  case True
  then show ?thesis by (simp add: js_trim_def)
next
  case False
  with assms have h: "\<not> white_space (hd s)" and l: "\<not> white_space (last s)" by auto
  have "dropWhile white_space s = s" using h by (simp add: dropWhile_id)
  moreover have "dropWhile white_space (rev s) = rev s"
    using l False by (intro dropWhile_id) (simp add: hd_rev)
  ultimately show ?thesis by (simp add: js_trim_def)
qed

lemma js_join_ends:
  assumes "ds \<noteq> []" and "\<forall>d\<in>set ds. d \<noteq> [] \<and> (\<forall>c\<in>set d. \<not> white_space c)"
  shows "js_join sep ds \<noteq> [] \<and> \<not> white_space (hd (js_join sep ds))
         \<and> \<not> white_space (last (js_join sep ds))"
  using assms
proof (induction sep ds rule: js_join.induct)
  case (1 sep)
  then show ?case by simp
next
  case (2 sep x)
  then show ?case by simp
next
  case (3 sep x y ys)
  then have ih: "js_join sep (y # ys) \<noteq> []"
    "\<not> white_space (last (js_join sep (y # ys)))" by simp_all
  from 3(3) have x: "x \<noteq> []" "\<not> white_space (hd x)" by simp_all
  from x ih show ?case by simp
qed

lemma js_split_join:
  assumes "ds \<noteq> []" and "\<forall>d\<in>set ds. sep \<notin> set d"
  shows "js_split sep (js_join [sep] ds) = ds"
  using assms
proof (induction "[sep]" ds rule: js_join.induct)
  case 1
  then show ?case by simp
next
  case (2 x)
  then show ?case by (simp add: js_split_no_sep)
next
  case (3 x y ys)
  then have "js_split sep (js_join [sep] (y # ys)) = y # ys" by simp
  moreover have "js_split sep (x @ sep # js_join [sep] (y # ys))
                   = x # js_split sep (js_join [sep] (y # ys))"
    using 3(3) by (intro js_split_append) simp
  ultimately show ?case by simp
qed

lemma space_is_white: "white_space CHR '' ''"
  by (simp add: white_space_def)

lemma cookieConfig_of_directives:
  assumes "\<forall>d\<in>set ds. d \<noteq> [] \<and> (\<forall>c\<in>set d. \<not> white_space c)"
  shows "cookieConfig_of (Some (js_join '' '' ds)) = js_join ''; '' ds"
proof (cases "ds = []")
  case True
  then show ?thesis by (simp add: cookieConfig_of_def js_trim_def)
next
  case False
  have "js_trim (js_join '' '' ds) = js_join '' '' ds"
    using js_join_ends [OF False assms, of "'' ''"] by (intro js_trim_id) simp
  moreover have "js_split CHR '' '' (js_join [CHR '' ''] ds) = ds"
    using assms space_is_white by (intro js_split_join [OF False]) auto
  ultimately show ?thesis by (simp add: cookieConfig_of_def)
qed

text \<open>
  C6: the issuance response has status 204 and description OK; for a cookie name, a
  token and a cookie configuration its \<open>Set-Cookie\<close> value is \<open>name=token\<close> when the
  configuration is empty and \<open>name=token; configuration\<close> otherwise. The handler
  calls the builder with \<open>tokenCookieConfig\<close> (empty when absent) trimmed, split on
  spaces and joined with \<open>; \<close>, which turns directives separated by single spaces
  into the same directives separated by semicolons.
\<close>

theorem setCookieResponse_value:
  "status (setCookieResponse a) = ''204''
   \<and> statusDescription (setCookieResponse a) = ''OK''
   \<and> response_headers (setCookieResponse \<lparr>cookieName = Some n, cookieConfig = Some c, token = Some t\<rparr>)
       = Some [(''set-cookie'',
                [\<lparr>key = ''Set-Cookie'',
                  hvalue = (if c = [] then n @ ''='' @ t else n @ ''='' @ t @ ''; '' @ c)\<rparr>])]
   \<and> (\<forall>config0 rec rest request extr tok cl.
         getConfigFromTags env (invokedFunctionArn ctx) = Inr config0
         \<and> Records event = rec # rest \<and> objects s (cf_request rec) = Some request
         \<and> setCookieUri config0 = Some (uri request) \<and> uri request \<noteq> []
         \<and> getSetCookieToken this = Some extr
         \<and> extr request = Inr tok \<and> verify_with (resolved env config0) tok = Inr cl
         \<longrightarrow> fst (frontAuth env this event ctx s) =
               Respond (setCookieResponse
                 \<lparr>cookieName = tokenCookieName config0,
                  cookieConfig = Some (js_join ''; '' (js_split CHR '' ''
                     (js_trim (case tokenCookieConfig config0 of None \<Rightarrow> [] | Some x \<Rightarrow> x)))),
                  token = tok\<rparr>))
   \<and> (\<forall>ds. (\<forall>d\<in>set ds. d \<noteq> [] \<and> (\<forall>c\<in>set d. \<not> white_space c)) \<longrightarrow>
         js_join ''; '' (js_split CHR '' '' (js_trim (js_join '' '' ds))) = js_join ''; '' ds)"
proof -
  have shape: "status (setCookieResponse a) = ''204''
      \<and> statusDescription (setCookieResponse a) = ''OK''"
    by (simp add: setCookieResponse_def Let_def)
  have val: "response_headers
        (setCookieResponse \<lparr>cookieName = Some n, cookieConfig = Some c, token = Some t\<rparr>)
       = Some [(''set-cookie'',
                [\<lparr>key = ''Set-Cookie'',
                  hvalue = (if c = [] then n @ ''='' @ t else n @ ''='' @ t @ ''; '' @ c)\<rparr>])]"
    by (simp add: setCookieResponse_def)
  have gate: "fst (frontAuth env this event ctx s) =
               Respond (setCookieResponse
                 \<lparr>cookieName = tokenCookieName config0,
                  cookieConfig = Some (js_join ''; '' (js_split CHR '' ''
                     (js_trim (case tokenCookieConfig config0 of None \<Rightarrow> [] | Some x \<Rightarrow> x)))),
                  token = tok\<rparr>)"
    if "getConfigFromTags env (invokedFunctionArn ctx) = Inr config0"
       "Records event = rec # rest" "objects s (cf_request rec) = Some request"
       "setCookieUri config0 = Some (uri request)" "uri request \<noteq> []"
       "getSetCookieToken this = Some extr"
       "extr request = Inr tok" "verify_with (resolved env config0) tok = Inr cl"
    for config0 rec rest request extr tok cl
  proof -
    have "frontAuth_try env this event ctx s =
           issue_cookie (resolved env config0) extr (cf_request rec) request
             (record_call (CallGetConfigFromTags (invokedFunctionArn ctx)) s)"
      by (rule frontAuth_try_issue [OF that(1,2,3,4,5) refl that(6)])
    then show ?thesis
      using that(7,8)
      by (simp add: frontAuth_fst issue_cookie_result cookieConfig_of_def)
  qed
  have tr: "js_join ''; '' (js_split CHR '' '' (js_trim (js_join '' '' ds))) = js_join ''; '' ds"
    if "\<forall>d\<in>set ds. d \<noteq> [] \<and> (\<forall>c\<in>set d. \<not> white_space c)" for ds
    using cookieConfig_of_directives [OF that] by (simp add: cookieConfig_of_def)
  from shape val gate tr show ?thesis by blast
qed

section \<open>Runs of the test deployment\<close>

lemma test_cfg: "getConfigFromTags test_env (invokedFunctionArn test_context) = Inr test_config"
  by (simp add: test_env_def)

lemma test_ev: "Records test_event = \<lparr>cf_request = 0\<rparr> # []"
  by (simp add: test_event_def)

lemma test_obj: "objects (store_of r) (cf_request \<lparr>cf_request = 0\<rparr>) = Some r"
  by (simp add: store_of_def)

lemma test_fresh: "calls (store_of r) = []"
  by (simp add: store_of_def)

theorem frontAuth_pass_through_identity_witness:
  "fst (frontAuth test_env test_helpers test_event test_context
          (store_of (cookie_request ''/common/test''))) = PassThrough 0
   \<and> objects (snd (frontAuth test_env test_helpers test_event test_context
          (store_of (cookie_request ''/common/test''))))
       = objects (store_of (cookie_request ''/common/test''))"
proof -
  have h: "fst (frontAuth test_env test_helpers test_event test_context
          (store_of (cookie_request ''/common/test''))) = PassThrough 0"
    by code_simp
  from frontAuth_pass_through_identity [OF h] h show ?thesis by simp
qed

text \<open>
  C1: the issuance flow is for a \<open>POST\<close> to \<open>setCookieUri\<close>, as the handler's own
  description of its set-cookie interface says. The handler does not look at the
  request's method: the example request of the tests has method \<open>GET\<close>, and sent to
  the set-cookie path with a token in its body it is handed to \<open>getSetCookieToken\<close>
  and answered with the cookie.
\<close>

theorem frontAuth_issues_cookie_on_GET:
  "request_method setCookie_request = ''GET''
   \<and> \<not> (CallGetSetCookieToken 0 \<in> set (calls (snd
            (frontAuth test_env test_helpers test_event test_context (store_of setCookie_request))))
         \<longleftrightarrow> request_method setCookie_request = ''POST''
              \<and> setCookieUri test_config = Some (uri setCookie_request))
   \<and> fst (frontAuth test_env test_helpers test_event test_context (store_of setCookie_request))
       = Respond \<lparr>status = ''204'', statusDescription = ''OK'',
                  response_headers = Some [(''set-cookie'',
                    [\<lparr>key = ''Set-Cookie'', hvalue = ''testtoken=signed.testuser''\<rparr>])]\<rparr>"
  by code_simp

lemma frontAuth_flow_selection_run:
  "setCookieUri test_config = Some (uri setCookie_request)
   \<and> CallGetSetCookieToken 0 \<in> set (calls (snd
        (frontAuth test_env test_helpers test_event test_context (store_of setCookie_request))))
   \<and> CallGetAuthorizedRequest \<notin> set (calls (snd
        (frontAuth test_env test_helpers test_event test_context (store_of setCookie_request))))"
proof -
  have u: "setCookieUri test_config = Some (uri setCookie_request)" by code_simp
  have n: "uri setCookie_request \<noteq> []" by code_simp
  have h: "getSetCookieToken test_helpers \<noteq> None" by (simp add: test_helpers_def)
  from frontAuth_flow_selection
         [OF test_cfg test_ev test_obj [of setCookie_request] test_fresh,
          where this = test_helpers] u n h
  show ?thesis by simp
qed


theorem frontAuth_without_set_cookie_witness:
  "getSetCookieToken (test_helpers\<lparr>getSetCookieToken := None\<rparr>) = None
   \<and> request_method (setCookie_request\<lparr>request_method := ''POST''\<rparr>) = ''POST''
   \<and> setCookieUri test_config = Some (uri (setCookie_request\<lparr>request_method := ''POST''\<rparr>))
   \<and> CallGetAuthorizedRequest \<in> set (calls (snd
        (frontAuth test_env (test_helpers\<lparr>getSetCookieToken := None\<rparr>) test_event test_context
           (store_of (setCookie_request\<lparr>request_method := ''POST''\<rparr>)))))
   \<and> fst (frontAuth test_env (test_helpers\<lparr>getSetCookieToken := None\<rparr>) test_event test_context
           (store_of (setCookie_request\<lparr>request_method := ''POST''\<rparr>)))
       = Respond \<lparr>status = ''403'', statusDescription = ''Forbidden'', response_headers = None\<rparr>"
proof -
  have h: "getSetCookieToken (test_helpers\<lparr>getSetCookieToken := None\<rparr>) = None" by simp
  have m: "request_method (setCookie_request\<lparr>request_method := ''POST''\<rparr>) = ''POST''" by simp
  have u: "setCookieUri test_config = Some (uri (setCookie_request\<lparr>request_method := ''POST''\<rparr>))"
    by code_simp
  have r: "fst (frontAuth test_env (test_helpers\<lparr>getSetCookieToken := None\<rparr>) test_event
             test_context (store_of (setCookie_request\<lparr>request_method := ''POST''\<rparr>)))
           = Respond \<lparr>status = ''403'', statusDescription = ''Forbidden'', response_headers = None\<rparr>"
    by code_simp
  from frontAuth_without_set_cookie
         [OF test_cfg test_ev test_fresh [of "setCookie_request\<lparr>request_method := ''POST''\<rparr>"],
          where this = "test_helpers\<lparr>getSetCookieToken := None\<rparr>"] h m u r
  show ?thesis by auto
qed



theorem frontAuth_failure_collapse_witness:
  "verify_with (resolved test_env test_config)
      (parseCookies test_env (headers (cookie_request ''/user/someotheruser/foo''))
         (template_string (tokenCookieName test_config))) = Inr [(''userid'', ''testuser'')]
   \<and> test_getAuthorizedPatterns (resolved test_env test_config) [(''userid'', ''testuser'')]
       = Inr [''^/common/.*'', ''^/user/testuser/.*'']
   \<and> some_test (\<lambda>re. regExp_test test_env re (uri (cookie_request ''/user/someotheruser/foo'')))
         [''^/common/.*'', ''^/user/testuser/.*''] \<noteq> Inr True
   \<and> fst (frontAuth test_env test_helpers test_event test_context
            (store_of (cookie_request ''/user/someotheruser/foo'')))
       = Respond \<lparr>status = ''403'', statusDescription = ''Forbidden'', response_headers = None\<rparr>"
proof -
  let ?r = "cookie_request ''/user/someotheruser/foo''"
  have flow: "\<not> ((\<exists>u. setCookieUri test_config = Some u \<and> u \<noteq> [] \<and> uri ?r = u)
                   \<and> getSetCookieToken test_helpers \<noteq> None)"
    by (simp add: test_config_def cookie_request_def)
  have v: "verify_with (resolved test_env test_config)
      (parseCookies test_env (headers ?r) (template_string (tokenCookieName test_config)))
      = Inr [(''userid'', ''testuser'')]"
    by code_simp
  have g: "getAuthorizedPatterns test_helpers = Some test_getAuthorizedPatterns"
    by (simp add: test_helpers_def)
  have d: "test_getAuthorizedPatterns (resolved test_env test_config) [(''userid'', ''testuser'')]
       = Inr [''^/common/.*'', ''^/user/testuser/.*'']"
    by code_simp
  have m: "some_test (\<lambda>re. regExp_test test_env re (uri ?r))
         [''^/common/.*'', ''^/user/testuser/.*''] \<noteq> Inr True"
    by code_simp
  have "fst (frontAuth test_env test_helpers test_event test_context (store_of ?r))
       = Respond \<lparr>status = ''403'', statusDescription = ''Forbidden'', response_headers = None\<rparr>"
    by (rule frontAuth_failure_collapse)
       (use test_cfg test_ev test_obj [of ?r] flow v g d m in auto)
  with v d m show ?thesis by simp
qed

theorem frontAuth_verified_tokens_only_witness:
  "calls (store_of exampleEventRequest) = []
   \<and> CallJwtVerify None (keyPairName test_config) (jwtVerifyOptions (swizzle test_env test_config))
        \<in> set (calls (snd (frontAuth test_env test_helpers test_event test_context
              (store_of exampleEventRequest))))
   \<and> verify_with (resolved test_env test_config) None = Inl (Rejected ''TokenInvalid'')
   \<and> fst (frontAuth test_env test_helpers test_event test_context (store_of exampleEventRequest))
       = Respond forbidden"
proof -
  have c: "CallJwtVerify None (keyPairName test_config)
             (jwtVerifyOptions (swizzle test_env test_config))
        \<in> set (calls (snd (frontAuth test_env test_helpers test_event test_context
              (store_of exampleEventRequest))))"
    by code_simp
  have rejects: "verify_with (resolved test_env test_config) None = Inl (Rejected ''TokenInvalid'')"
    by code_simp
  from frontAuth_verified_tokens_only
         [OF test_fresh [of exampleEventRequest], of test_env test_helpers test_event test_context]
       test_cfg c rejects test_fresh [of exampleEventRequest]
  show ?thesis by blast
qed

text \<open>
  C4 as stated does not hold: with the pattern set \<open>^/user/(/.*\<close>, \<open>^/common/.*\<close>
  and the URI \<open>/common/x\<close> the second pattern matches, but the first one does not
  compile, the test raises, and the request is not allowed.
\<close>

theorem getAuthorizedRequest_invalid_pattern_denies:
  "fst (ar_getAuthorizedPatterns (fixed_authorizer [''^/user/(/.*'', ''^/common/.*''])
          (Some ''signed.testuser'') (store_of (cookie_request ''/common/x'')))
     = Inr [''^/user/(/.*'', ''^/common/.*'']
   \<and> regExp_test test_env ''^/common/.*'' (uri (cookie_request ''/common/x'')) = Inr True
   \<and> fst (getAuthorizedRequest test_env (fixed_authorizer [''^/user/(/.*'', ''^/common/.*''])
            test_event (store_of (cookie_request ''/common/x''))) = Inl SyntaxError"
  by code_simp

theorem getAuthorizedRequest_allows_witness:
  "regExp_test test_env ''^/user/testuser/.*'' (uri (cookie_request ''/user/testuser/foo'')) = Inr True
   \<and> regExp_test test_env ''^/common/.*'' (uri (cookie_request ''/user/testuser/foo'')) = Inr False
   \<and> fst (getAuthorizedRequest test_env
            (fixed_authorizer [''^/common/.*'', ''^/user/testuser/.*''])
            test_event (store_of (cookie_request ''/user/testuser/foo''))) = Inr 0"
proof -
  let ?r = "cookie_request ''/user/testuser/foo''"
  let ?P = "[''^/common/.*'', ''^/user/testuser/.*'']"
  have pat: "ar_getAuthorizedPatterns (fixed_authorizer ?P)
                  (parseCookies test_env (headers ?r)
                     (template_string (ar_tokenCookieName (fixed_authorizer ?P))))
                  (record_call CallGetAuthorizedRequest (store_of ?r))
               = (Inr ?P, record_call CallGetAuthorizedRequest (store_of ?r))"
    by (simp add: fixed_authorizer_def)
  have obj': "objects (record_call CallGetAuthorizedRequest (store_of ?r))
                (cf_request \<lparr>cf_request = 0\<rparr>) = Some ?r"
    by (simp add: store_of_def record_call_def)
  have t1: "regExp_test test_env ''^/user/testuser/.*'' (uri ?r) = Inr True" by code_simp
  have t2: "regExp_test test_env ''^/common/.*'' (uri ?r) = Inr False" by code_simp
  have dec: "?P = [''^/common/.*''] @ ''^/user/testuser/.*'' # []" by simp
  have "\<exists>pre p post. ?P = pre @ p # post
                   \<and> regExp_test test_env p (uri ?r) = Inr True
                   \<and> (\<forall>q\<in>set pre. regExp_test test_env q (uri ?r) = Inr False)"
    using dec t1 t2 by (intro exI [of _ "[''^/common/.*'']"] exI [of _ "''^/user/testuser/.*''"]
                          exI [of _ "[]"]) simp
  with getAuthorizedRequest_allows [OF test_ev test_obj [of ?r] pat obj'] t1 t2
  show ?thesis by simp
qed

theorem setCookieResponse_value_witness:
  "js_join ''; '' (js_split CHR '' '' (js_trim (js_join '' '' [''Secure'', ''HttpOnly'', ''Path=/''])))
     = ''Secure; HttpOnly; Path=/''
   \<and> response_headers (setCookieResponse
        \<lparr>cookieName = Some ''testtoken'', cookieConfig = Some ''Secure; HttpOnly; Path=/'',
         token = Some ''signed.testuser''\<rparr>)
       = Some [(''set-cookie'', [\<lparr>key = ''Set-Cookie'',
            hvalue = ''testtoken=signed.testuser; Secure; HttpOnly; Path=/''\<rparr>])]
   \<and> fst (frontAuth test_env test_helpers test_event test_context (store_of setCookie_request))
       = Respond (setCookieResponse
           \<lparr>cookieName = Some ''testtoken'', cookieConfig = Some [],
            token = Some ''signed.testuser''\<rparr>)"
proof -
  have ds: "\<forall>d\<in>set [''Secure'', ''HttpOnly'', ''Path=/'']. d \<noteq> [] \<and> (\<forall>c\<in>set d. \<not> white_space c)"
    by (simp add: white_space_def)
  have u: "setCookieUri test_config = Some (uri setCookie_request)" by code_simp
  have n: "uri setCookie_request \<noteq> []" by code_simp
  have h: "getSetCookieToken test_helpers = Some test_getSetCookieToken"
    by (simp add: test_helpers_def)
  have x: "test_getSetCookieToken setCookie_request = Inr (Some ''signed.testuser'')" by code_simp
  have v: "verify_with (resolved test_env test_config) (Some ''signed.testuser'')
             = Inr [(''userid'', ''testuser'')]" by code_simp
  have n': "tokenCookieName test_config = Some ''testtoken''" by code_simp
  have c': "js_join ''; '' (js_split CHR '' ''
              (js_trim (case tokenCookieConfig test_config of None \<Rightarrow> [] | Some x \<Rightarrow> x))) = []"
    by code_simp
  have j: "js_join ''; '' [''Secure'', ''HttpOnly'', ''Path=/''] = ''Secure; HttpOnly; Path=/''"
    by simp
  note inst = setCookieResponse_value
     [where env = test_env and ctx = test_context and event = test_event
        and s = "store_of setCookie_request" and this = test_helpers
        and n = "''testtoken''" and c = "''Secure; HttpOnly; Path=/''"
        and t = "''signed.testuser''"]
  from inst have
    a: "response_headers (setCookieResponse
        \<lparr>cookieName = Some ''testtoken'', cookieConfig = Some ''Secure; HttpOnly; Path=/'',
         token = Some ''signed.testuser''\<rparr>)
       = Some [(''set-cookie'', [\<lparr>key = ''Set-Cookie'',
            hvalue = ''testtoken=signed.testuser; Secure; HttpOnly; Path=/''\<rparr>])]"
    by simp
  from inst ds j have
    b: "js_join ''; '' (js_split CHR '' '' (js_trim (js_join '' '' [''Secure'', ''HttpOnly'', ''Path=/''])))
     = ''Secure; HttpOnly; Path=/''"
    by metis
  from inst test_cfg test_ev test_obj [of setCookie_request] u n h x v have
    "fst (frontAuth test_env test_helpers test_event test_context (store_of setCookie_request))
       = Respond (setCookieResponse
           \<lparr>cookieName = tokenCookieName test_config,
            cookieConfig = Some (js_join ''; '' (js_split CHR '' ''
              (js_trim (case tokenCookieConfig test_config of None \<Rightarrow> [] | Some x \<Rightarrow> x)))),
            token = Some ''signed.testuser''\<rparr>)"
    by blast
  with a b n' c' show ?thesis by simp
qed

text \<open>
  C9: with the tags \<open>clockTolerance = 30\<close>, \<open>algorithms = ES256 ES384\<close> and
  \<open>maxAge = 10s\<close> under \<open>jwtVerifyOptions\<close>, the verifier is called with the algorithms
  split into a list and \<open>maxAge\<close> as it was, but with \<open>clockTolerance\<close> still the string
  \<open>30\<close>: line 126 tests the type of \<open>config.clockTolerance\<close>, which is undefined,
  instead of \<open>jwtVerifyOptions.clockTolerance\<close>, so \<open>parseInt\<close> is not applied.
\<close>

theorem frontAuth_clockTolerance_stays_string:
  "calls (snd (frontAuth (test_env\<lparr>getConfigFromTags := (\<lambda>arn. Inr tolerance_config)\<rparr>)
                 test_helpers test_event test_context (store_of (cookie_request ''/common/test''))))
   = [CallGetConfigFromTags ''arn:test'', CallGetAuthorizedRequest,
      CallJwtVerify (Some ''signed.testuser'') (Some ''testkey'')
        (Some \<lparr>clockTolerance = JString ''30'',
               algorithms = JArray [''ES256'', ''ES384''],
               maxAge = JString ''10s''\<rparr>),
      CallGetAuthorizedPatterns [(''userid'', ''testuser'')]]
   \<and> parseInt test_env (JString ''30'') = JNumber 30"
  by code_simp

end
